theory Spec2Isabelle
  imports
    Complex_Main
    "HOL-Library.Char_ord"
    "HOL-Library.List_Lexorder"
    "HOL-Library.Option_ord"
    "HOL-Library.Sublist"
begin

section \<open>JavaScript values and strings\<close>

text \<open>
  The handlers destructure a JSON body and test its fields with \<open>!x\<close>, \<open>x || d\<close> and
  \<open>x !== undefined\<close>. The article fields are strings in the data model, so a field of the
  body is a string, \<open>null\<close>, or missing (\<open>undefined\<close>). A JavaScript string is a sequence
  of UTF-16 code units; the model keeps the code units U+0000 to U+00FF, which are the
  values of \<^typ>\<open>char\<close>. A value that is a string or \<open>null\<close> (a cell of the database, the
  result of \<open>createExcerpt\<close>) is a \<^typ>\<open>string option\<close>.
\<close>

datatype jsval = Undefined | Null | Str (str_of: string)

fun truthy :: "jsval \<Rightarrow> bool" where
  "truthy Undefined = False"
| "truthy Null = False"
| "truthy (Str s) = (s \<noteq> [])"

text \<open>\<open>x || null\<close> and \<open>x || 'd'\<close> on a field of the body.\<close>

fun or_null :: "jsval \<Rightarrow> string option" where
  "or_null (Str s) = (if s = [] then None else Some s)"
| "or_null _ = None"

fun or_default :: "jsval \<Rightarrow> string \<Rightarrow> string" where
  "or_default (Str s) d = (if s = [] then d else s)"
| "or_default _ d = d"

text \<open>The truthiness of a database cell read back into JavaScript (\<open>null\<close> or a string).\<close>

fun truthy_cell :: "string option \<Rightarrow> bool" where
  "truthy_cell None = False"
| "truthy_cell (Some s) = (s \<noteq> [])"

text \<open>
  \<open>String.prototype.toLowerCase\<close> on the code units below 256: the letters A to Z and
  the Latin-1 capitals U+00C0 to U+00DE (without the multiplication sign U+00D7) move up
  by 32; every other code unit stays.
\<close>

definition lower_char :: "char \<Rightarrow> char" where
  "lower_char c =
     (let n = (of_char c :: nat)
      in if (65 \<le> n \<and> n \<le> 90) \<or> (192 \<le> n \<and> n \<le> 222 \<and> n \<noteq> 215)
         then char_of (n + 32) else c)"

definition toLowerCase :: "string \<Rightarrow> string" where
  "toLowerCase s = map lower_char s"

text \<open>
  \<open>String.prototype.trim\<close> removes white space and line terminators from both ends;
  below 256 these are TAB, LF, VT, FF, CR, SPACE and NBSP.
\<close>

definition isWhiteSpace :: "char \<Rightarrow> bool" where
  "isWhiteSpace c = ((of_char c :: nat) \<in> {9, 10, 11, 12, 13, 32, 160})"

definition trim :: "string \<Rightarrow> string" where
  "trim s = rev (dropWhile isWhiteSpace (rev (dropWhile isWhiteSpace s)))"

text \<open>\<open>String.prototype.includes\<close>: the pattern occurs at some position of the string.\<close>

fun includes_str :: "string \<Rightarrow> string \<Rightarrow> bool" where
  "includes_str [] p = (p = [])"
| "includes_str (c # cs) p = (prefix p (c # cs) \<or> includes_str cs p)"

section \<open>Excerpt derivation\<close>

text \<open>
  \<^verbatim>\<open>
  const createExcerpt = (content) => {
      if (!content) return null;
      const cleanText = content.replace(/[\#\*\-\>\[\]\n]/g, '').trim();
      return cleanText.substring(0, 150) + (cleanText.length > 150 ? '...' : '');
  };
  \<close>
\<close>

definition isMarkup :: "char \<Rightarrow> bool" where
  "isMarkup c = (c \<in> set ''#*->[]'' \<or> c = CHR 0x0A)"

definition cleanText :: "string \<Rightarrow> string" where
  "cleanText s = trim (filter (\<lambda>c. \<not> isMarkup c) s)"

definition createExcerpt :: "jsval \<Rightarrow> string option" where
  "createExcerpt content =
     (case content of
        Str s \<Rightarrow>
          if s = [] then None
          else Some (take 150 (cleanText s) @ (if length (cleanText s) > 150 then ''...'' else []))
      | _ \<Rightarrow> None)"

section \<open>The articles table\<close>

text \<open>
  The schema (\<open>CREATE TABLE articles\<close>): \<open>id INTEGER PRIMARY KEY AUTOINCREMENT\<close>,
  \<open>slug TEXT UNIQUE NOT NULL\<close>, \<open>title TEXT NOT NULL\<close>, and eleven nullable text columns.
  A nullable cell is a \<^typ>\<open>string option\<close>; timestamps are the text the clock produced
  (\<open>new Date().toISOString()\<close>, \<open>CURRENT_TIMESTAMP\<close>), compared as text by the database.
  The field \<open>id_col\<close> is the column \<open>id\<close>.
\<close>

record article =
  id_col :: nat
  slug :: string
  title :: string
  excerpt :: "string option"
  content :: "string option"
  featured_image :: "string option"
  category :: "string option"
  author :: "string option"
  status :: "string option"
  created_at :: "string option"
  updated_at :: "string option"
  published_at :: "string option"
  meta_title :: "string option"
  meta_description :: "string option"

text \<open>
  The database: the rows in insertion order, the AUTOINCREMENT counter, and the storage
  fault, if any: when \<open>fault\<close> is \<open>Some m\<close> every statement throws an error whose
  message is \<open>m\<close>. A statement returns \<open>Inl m\<close> for a thrown error with message \<open>m\<close>.
\<close>

record database =
  rows :: "article list"
  seq :: nat
  fault :: "string option"

definition unique_slugs :: "database \<Rightarrow> bool" where
  "unique_slugs db = distinct (map slug (rows db))"

text \<open>The columns an \<open>UPDATE\<close> of the program assigns.\<close>

datatype column =
  Published_at | Excerpt | Title | Featured_image | Category | Author | Status
  | Meta_title | Meta_description | Content | Updated_at

fun assign :: "column \<times> string option \<Rightarrow> article \<Rightarrow> article" where
  "assign (Published_at, v) a = a\<lparr>published_at := v\<rparr>"
| "assign (Excerpt, v) a = a\<lparr>excerpt := v\<rparr>"
| "assign (Title, v) a = (case v of Some s \<Rightarrow> a\<lparr>title := s\<rparr> | None \<Rightarrow> a)"
| "assign (Featured_image, v) a = a\<lparr>featured_image := v\<rparr>"
| "assign (Category, v) a = a\<lparr>category := v\<rparr>"
| "assign (Author, v) a = a\<lparr>author := v\<rparr>"
| "assign (Status, v) a = a\<lparr>status := v\<rparr>"
| "assign (Meta_title, v) a = a\<lparr>meta_title := v\<rparr>"
| "assign (Meta_description, v) a = a\<lparr>meta_description := v\<rparr>"
| "assign (Content, v) a = a\<lparr>content := v\<rparr>"
| "assign (Updated_at, v) a = a\<lparr>updated_at := v\<rparr>"

text \<open>SQLite's messages for the two constraints the program can violate, as D1 reports them.\<close>

definition unique_slug_message :: string where
  "unique_slug_message = ''D1_ERROR: UNIQUE constraint failed: articles.slug: SQLITE_CONSTRAINT''"

definition not_null_title_message :: string where
  "not_null_title_message = ''D1_ERROR: NOT NULL constraint failed: articles.title: SQLITE_CONSTRAINT''"

text \<open>
  \<open>WHERE status = 'published' [AND category = ?]\<close>: text comparison is exact, and a
  \<open>NULL\<close> cell equals nothing.
\<close>

definition matching :: "string option \<Rightarrow> article \<Rightarrow> bool" where
  "matching cat a =
     (status a = Some ''published'' \<and> (case cat of None \<Rightarrow> True | Some c \<Rightarrow> category a = Some c))"

text \<open>
  \<open>ORDER BY published_at DESC\<close>: \<open>NULL\<close> sorts below every text, so it comes last. The
  order among equal keys is not fixed by SQLite; the model takes the reverse of a stable
  ascending sort.
\<close>

definition order_by_published_at_desc :: "article list \<Rightarrow> article list" where
  "order_by_published_at_desc xs = rev (sort_key published_at xs)"

text \<open>\<open>LIMIT ? OFFSET ?\<close>: a negative limit is no limit, a negative offset is zero.\<close>

definition limit_offset :: "int \<Rightarrow> int \<Rightarrow> 'a list \<Rightarrow> 'a list" where
  "limit_offset n_limit n_offset xs =
     (let ys = drop (nat n_offset) xs in if n_limit < 0 then ys else take (nat n_limit) ys)"

text \<open>
  The columns the list query selects: \<open>id, slug, title, excerpt, featured_image, category,
  author, published_at, created_at, updated_at\<close> (fields prefixed \<open>l_\<close>).
\<close>

record listed =
  l_id :: nat
  l_slug :: string
  l_title :: string
  l_excerpt :: "string option"
  l_featured_image :: "string option"
  l_category :: "string option"
  l_author :: "string option"
  l_published_at :: "string option"
  l_created_at :: "string option"
  l_updated_at :: "string option"

definition select_columns :: "article \<Rightarrow> listed" where
  "select_columns a =
     \<lparr>l_id = id_col a, l_slug = slug a, l_title = title a, l_excerpt = excerpt a,
      l_featured_image = featured_image a, l_category = category a, l_author = author a,
      l_published_at = published_at a, l_created_at = created_at a,
      l_updated_at = updated_at a\<rparr>"

definition select_listing :: "database \<Rightarrow> string option \<Rightarrow> int \<Rightarrow> int \<Rightarrow> string + listed list" where
  "select_listing db cat n_limit n_offset =
     (case fault db of
        Some m \<Rightarrow> Inl m
      | None \<Rightarrow>
          Inr (map select_columns
                 (limit_offset n_limit n_offset (order_by_published_at_desc (filter (matching cat) (rows db))))))"

definition select_count :: "database \<Rightarrow> string option \<Rightarrow> string + nat" where
  "select_count db cat =
     (case fault db of
        Some m \<Rightarrow> Inl m
      | None \<Rightarrow> Inr (length (filter (matching cat) (rows db))))"

text \<open>\<open>SELECT * FROM articles WHERE slug = ? AND status = 'published' LIMIT 1\<close>\<close>

definition select_published_by_slug :: "database \<Rightarrow> string \<Rightarrow> string + article list" where
  "select_published_by_slug db s =
     (case fault db of
        Some m \<Rightarrow> Inl m
      | None \<Rightarrow> Inr (take 1 (filter (\<lambda>a. slug a = s \<and> status a = Some ''published'') (rows db))))"

text \<open>\<open>SELECT status, published_at FROM articles WHERE slug = ?\<close>, read with \<open>first()\<close>.\<close>

definition select_first_by_slug :: "database \<Rightarrow> string \<Rightarrow> string + (string option \<times> string option) option" where
  "select_first_by_slug db s =
     (case fault db of
        Some m \<Rightarrow> Inl m
      | None \<Rightarrow> Inr (map_option (\<lambda>a. (status a, published_at a)) (find (\<lambda>a. slug a = s) (rows db))))"

text \<open>
  \<open>INSERT INTO articles (...) VALUES (...)\<close>: the row gets the next id; a slug that
  is already in the table violates \<open>UNIQUE\<close>.
\<close>

definition insert_article :: "database \<Rightarrow> article \<Rightarrow> string + database" where
  "insert_article db a =
     (case fault db of
        Some m \<Rightarrow> Inl m
      | None \<Rightarrow>
          if slug a \<in> set (map slug (rows db)) then Inl unique_slug_message
          else Inr (db\<lparr>rows := rows db @ [a\<lparr>id_col := Suc (seq db)\<rparr>], seq := Suc (seq db)\<rparr>))"

text \<open>
  \<open>UPDATE articles SET ... WHERE slug = ?\<close>: every row with the slug gets the assignments
  in order. The second component of the result is what the handler reads as
  \<open>result.changes\<close>, the number of rows with the slug. Assigning \<open>NULL\<close> to \<open>title\<close> in some
  row violates \<open>NOT NULL\<close>.
\<close>

definition update_article :: "database \<Rightarrow> (column \<times> string option) list \<Rightarrow> string \<Rightarrow> string + (database \<times> nat)" where
  "update_article db sets s =
     (case fault db of
        Some m \<Rightarrow> Inl m
      | None \<Rightarrow>
          if (Title, None) \<in> set sets \<and> s \<in> set (map slug (rows db)) then Inl not_null_title_message
          else Inr (db\<lparr>rows := map (\<lambda>a. if slug a = s then fold assign sets a else a) (rows db)\<rparr>,
                    length (filter (\<lambda>a. slug a = s) (rows db))))"

text \<open>\<open>DELETE FROM articles WHERE slug = ?\<close>\<close>

definition delete_article :: "database \<Rightarrow> string \<Rightarrow> string + (database \<times> nat)" where
  "delete_article db s =
     (case fault db of
        Some m \<Rightarrow> Inl m
      | None \<Rightarrow>
          Inr (db\<lparr>rows := filter (\<lambda>a. slug a \<noteq> s) (rows db)\<rparr>,
               length (filter (\<lambda>a. slug a = s) (rows db))))"

section \<open>Requests and responses\<close>

text \<open>
  A response is \<open>c.json(body, code)\<close>; the bodies are
  \<open>{success, message}\<close>, \<open>{success, message, slug}\<close>, \<open>{success: true, data, pagination}\<close> and
  \<open>{success: true, data}\<close>. An exception that no handler catches gets the framework's
  reply, \<open>Internal Server Error\<close> with code 500.
\<close>

record pagination =
  page :: int
  size_p :: int
  total_items :: nat
  total_pages :: int
  category_p :: "string option"

datatype payload =
    Message bool string
  | MessageSlug bool string string
  | Listing "listed list" pagination
  | Detail article
  | InternalServerError

record response =
  code :: nat
  payload :: payload

fun success :: "payload \<Rightarrow> bool" where
  "success (Message b m) = b"
| "success (MessageSlug b m s) = b"
| "success (Listing d p) = True"
| "success (Detail a) = True"
| "success InternalServerError = False"

definition json_response :: "payload \<Rightarrow> nat \<Rightarrow> response" where
  "json_response b c = \<lparr>code = c, payload = b\<rparr>"

definition uncaught :: response where
  "uncaught = \<lparr>code = 500, payload = InternalServerError\<rparr>"

text \<open>
  What a handler reads of a request: the header \<open>X-API-Key\<close> (\<open>undefined\<close> when missing),
  the parsed JSON body as a function from keys to values (\<open>undefined\<close> for a key the object
  does not have; \<open>None\<close> when \<open>c.req.json()\<close> throws), the path parameter \<open>:slug\<close>, and the
  query: \<open>parseInt\<close> of \<open>page\<close> and \<open>size\<close> (\<open>None\<close> for \<open>NaN\<close>) and \<open>category\<close> (\<open>None\<close> for
  \<open>null\<close>).
\<close>

record request =
  x_api_key :: jsval
  json :: "(string \<Rightarrow> jsval) option"
  param_slug :: string
  query_page :: "int option"
  query_size :: "int option"
  query_category :: "string option"


section \<open>Public endpoints\<close>

text \<open>\<open>parseInt(...) || d\<close>: \<open>NaN\<close> and \<open>0\<close> are falsy.\<close>

definition or_int :: "int option \<Rightarrow> int \<Rightarrow> int" where
  "or_int p d = (case p of None \<Rightarrow> d | Some n \<Rightarrow> if n = 0 then d else n)"

text \<open>
  \<open>Math.ceil(totalArticles / size)\<close>, where \<open>size\<close> is never zero; the quotient is taken
  exactly, as the floating-point division is for the counts of a table.
\<close>

definition ceil_div :: "nat \<Rightarrow> int \<Rightarrow> int" where
  "ceil_div n d = \<lceil>(of_nat n :: rat) / of_int d\<rceil>"

text \<open>\<open>app.get('/api/articles')\<close>\<close>

definition get_articles :: "database \<Rightarrow> request \<Rightarrow> response" where
  "get_articles db req =
     (let page_q = or_int (query_page req) 1;
          size = or_int (query_size req) 10;
          category_q = query_category req;
          offset = (page_q - 1) * size;
          params = (if truthy_cell category_q then category_q else None)
      in case select_listing db params size offset of
           Inl error \<Rightarrow> json_response (Message False ''Failed to fetch articles'') 500
         | Inr results \<Rightarrow>
             (case select_count db params of
                Inl error \<Rightarrow> json_response (Message False ''Failed to fetch articles'') 500
              | Inr totalArticles \<Rightarrow>
                  json_response
                    (Listing results
                       \<lparr>page = page_q, size_p = size, total_items = totalArticles,
                        total_pages = ceil_div totalArticles size,
                        category_p = (if truthy_cell category_q then category_q else None)\<rparr>)
                    200))"

text \<open>\<open>app.get('/api/articles/:slug')\<close>\<close>

definition get_article :: "database \<Rightarrow> request \<Rightarrow> response" where
  "get_article db req =
     (case select_published_by_slug db (param_slug req) of
        Inl error \<Rightarrow> json_response (Message False ''Failed to fetch article'') 500
      | Inr results \<Rightarrow>
          if length results = 0
          then json_response (Message False ''Article not found or not published'') 404
          else json_response (Detail (hd results)) 200)"

section \<open>Admin endpoints\<close>

text \<open>
  \<open>adminArticles.post('/articles')\<close>. The handler reads the clock twice: \<open>t_pub\<close> for
  \<open>published_at\<close> and \<open>t_now\<close> for \<open>currentTimestamp\<close>. \<open>inserted_values\<close> are the
  values it binds to the \<open>INSERT\<close> (the database assigns the id); local names that are also
  columns carry a suffix.
\<close>

definition inserted_values :: "(string \<Rightarrow> jsval) \<Rightarrow> string \<Rightarrow> string \<Rightarrow> article" where
  "inserted_values body t_pub t_now =
     (let status_b = body ''status'';
          published_at_v =
            (if truthy status_b \<and> toLowerCase (str_of status_b) = ''published''
             then Some t_pub else None);
          excerpt_v = createExcerpt (body ''content'');
          currentTimestamp = t_now
      in \<lparr>id_col = 0,
          slug = str_of (body ''slug''),
          title = str_of (body ''title''),
          excerpt = excerpt_v,
          content = Some (str_of (body ''content'')),
          featured_image = or_null (body ''featured_image''),
          category = or_null (body ''category''),
          author = Some (or_default (body ''author'') ''Admin''),
          status = Some (or_default status_b ''draft''),
          created_at = Some currentTimestamp,
          updated_at = Some currentTimestamp,
          published_at = published_at_v,
          meta_title = or_null (body ''meta_title''),
          meta_description = or_null (body ''meta_description'')\<rparr>)"

definition post_articles :: "database \<Rightarrow> request \<Rightarrow> string \<Rightarrow> string \<Rightarrow> response \<times> database" where
  "post_articles db req t_pub t_now =
     (case json req of
        None \<Rightarrow> (json_response (Message False ''Invalid JSON payload received.'') 400, db)
      | Some body \<Rightarrow>
          if \<not> truthy (body ''slug'') \<or> \<not> truthy (body ''title'') \<or> \<not> truthy (body ''content'')
          then (json_response
                  (Message False ''Validation failed: slug, title, and content are required.'') 400, db)
          else
            (case insert_article db (inserted_values body t_pub t_now) of
               Inr db' \<Rightarrow>
                 (json_response
                    (MessageSlug True ''Article added successfully'' (str_of (body ''slug''))) 200, db')
             | Inl message \<Rightarrow>
                 if includes_str message ''UNIQUE constraint failed: articles.slug''
                 then (json_response
                         (Message False
                            (''Failed to add article: SLUG '' @ [CHR 0x27] @ str_of (body ''slug'')
                             @ [CHR 0x27] @ '' already exists.'')) 409, db)
                 else (json_response (Message False (''Error adding article: '' @ message)) 500, db)))"

text \<open>
  \<open>if (value !== undefined) { setClauses.push(`${key} = ?`); updateParams.push(value) }\<close>:
  a clause and its parameter, as a pair.
\<close>

fun set_clause :: "column \<Rightarrow> jsval \<Rightarrow> (column \<times> string option) list" where
  "set_clause key Undefined = []"
| "set_clause key Null = [(key, None)]"
| "set_clause key (Str s) = [(key, Some s)]"

text \<open>A cell of the row that \<open>first()\<close> returned, as a JavaScript value.\<close>

fun js_of_cell :: "string option \<Rightarrow> jsval" where
  "js_of_cell None = Null"
| "js_of_cell (Some s) = Str s"

text \<open>\<open>(status && status.toLowerCase()) || existingArticle.status\<close>\<close>

definition newStatus :: "jsval \<Rightarrow> string option \<Rightarrow> jsval" where
  "newStatus status_b existing_status =
     (if truthy status_b then Str (toLowerCase (str_of status_b)) else js_of_cell existing_status)"

text \<open>The \<open>published_at\<close> logic of the update; \<open>t_pub\<close> is the clock read in its first branch.\<close>

definition publishedAtValue :: "jsval \<Rightarrow> string option \<Rightarrow> string \<Rightarrow> string option" where
  "publishedAtValue new_status existing_published_at t_pub =
     (if new_status = Str ''published'' \<and> \<not> truthy_cell existing_published_at then Some t_pub
      else if new_status \<noteq> Str ''published'' \<and> truthy_cell existing_published_at then None
      else existing_published_at)"

text \<open>
  The clauses of the update before \<open>updated_at\<close>, in the order the handler pushes them:
  \<open>published_at\<close>, \<open>excerpt\<close> when \<open>content\<close> is given, the entries of \<open>fields\<close> that are
  not \<open>undefined\<close> (without \<open>content\<close>), and \<open>content\<close> when it is given.
\<close>

definition setClauses :: "(string \<Rightarrow> jsval) \<Rightarrow> string option \<Rightarrow> string option \<Rightarrow> string \<Rightarrow> (column \<times> string option) list" where
  "setClauses body existing_status existing_published_at t_pub =
     (let content_b = body ''content'';
          new_status = newStatus (body ''status'') existing_status
      in [(Published_at, publishedAtValue new_status existing_published_at t_pub)]
         @ (if content_b \<noteq> Undefined then [(Excerpt, createExcerpt content_b)] else [])
         @ set_clause Title (body ''title'')
         @ set_clause Featured_image (body ''featured_image'')
         @ set_clause Category (body ''category'')
         @ set_clause Author (body ''author'')
         @ set_clause Status new_status
         @ set_clause Meta_title (body ''meta_title'')
         @ set_clause Meta_description (body ''meta_description'')
         @ set_clause Content content_b)"

text \<open>
  \<open>adminArticles.put('/articles')\<close>. \<open>t_pub\<close> is the handler's clock, \<open>t_db\<close> the database's
  \<open>CURRENT_TIMESTAMP\<close>. The first query is outside the handler's \<open>try\<close>.
\<close>

definition put_articles :: "database \<Rightarrow> request \<Rightarrow> string \<Rightarrow> string \<Rightarrow> response \<times> database" where
  "put_articles db req t_pub t_db =
     (case json req of
        None \<Rightarrow> (json_response (Message False ''Invalid JSON payload received.'') 400, db)
      | Some body \<Rightarrow>
          let targetSlug = body ''slug'' in
          if \<not> truthy targetSlug
          then (json_response
                  (Message False ''Missing required field: slug in body for update'') 400, db)
          else
            (case select_first_by_slug db (str_of targetSlug) of
               Inl message \<Rightarrow> (uncaught, db)
             | Inr None \<Rightarrow> (json_response (Message False ''Article not found'') 404, db)
             | Inr (Some (existing_status, existing_published_at)) \<Rightarrow>
                 let clauses = setClauses body existing_status existing_published_at t_pub in
                 if length clauses \<le> 1
                 then (json_response (Message False ''No valid fields provided for update'') 400, db)
                 else
                   (case update_article db (clauses @ [(Updated_at, Some t_db)]) (str_of targetSlug) of
                      Inl message \<Rightarrow>
                        (json_response
                           (Message False (''Failed to update article: '' @ message)) 500, db)
                    | Inr (db', changes) \<Rightarrow>
                        if changes = 0
                        then (json_response
                                (Message False ''Article not found or no changes applied'') 404, db')
                        else (json_response
                                (MessageSlug True ''Article updated successfully'' (str_of targetSlug))
                                200, db'))))"

text \<open>\<open>adminArticles.delete('/articles')\<close>\<close>

definition delete_articles :: "database \<Rightarrow> request \<Rightarrow> response \<times> database" where
  "delete_articles db req =
     (case json req of
        None \<Rightarrow> (json_response (Message False ''Invalid JSON payload received.'') 400, db)
      | Some body \<Rightarrow>
          if \<not> truthy (body ''slug'')
          then (json_response
                  (Message False ''Missing required field: slug in body for delete'') 400, db)
          else
            (case delete_article db (str_of (body ''slug'')) of
               Inl message \<Rightarrow> (json_response (Message False ''Failed to delete article'') 500, db)
             | Inr (db', changes) \<Rightarrow>
                 if changes = 0
                 then (json_response (Message False ''Article not found'') 404, db')
                 else (json_response
                         (MessageSlug True ''Article deleted successfully'' (str_of (body ''slug'')))
                         200, db')))"

text \<open>
  \<open>authMiddleware\<close>: the key comes in the header \<open>X-API-Key\<close>; \<open>next\<close> is the rest of the
  chain.
\<close>

definition unauthorized :: response where
  "unauthorized =
     json_response (Message False ''Unauthorized: Invalid or missing X-API-Key in header'') 401"




section \<open>The admin group of \<open>src/index.js\<close>\<close>

text \<open>
  \<open>src/index.js\<close> holds another admin group, mounted at \<open>/api/admin/articles\<close>, with the
  routes \<open>/add\<close>, \<open>/put/:slug\<close> and \<open>/delete/:slug\<close>. Its \<open>authMiddleware\<close> reads the key from
  the field \<open>apiKey\<close> of the JSON body (\<open>c.req.json().catch(() => ({}))\<close>: a body that does
  not parse counts as the empty object). Its delete handler takes the slug from the path.
\<close>

definition unauthorized_index_js :: response where
  "unauthorized_index_js =
     json_response (Message False ''Unauthorized: Invalid or missing API Key'') 401"




section \<open>The publish policy as the specification words it\<close>

text \<open>
  The specification's policy for an update: the effective status is the requested status if
  one is supplied, else the stored one; if it equals \<open>"published"\<close> and no \<open>publishedAt\<close>
  exists, \<open>publishedAt\<close> becomes the current timestamp; if it does not and a \<open>publishedAt\<close>
  exists, \<open>publishedAt\<close> is cleared; otherwise it is unchanged. The comparison is a
  parameter: the specification's text compares case-insensitively (\<open>ci_equal\<close>), a literal
  reading compares the strings (\<open>(=)\<close>).
\<close>

definition ci_equal :: "string \<Rightarrow> string \<Rightarrow> bool" where
  "ci_equal a b = (toLowerCase a = toLowerCase b)"

definition spec_effective_status :: "jsval \<Rightarrow> string option \<Rightarrow> string option" where
  "spec_effective_status requested stored = (case requested of Str s \<Rightarrow> Some s | _ \<Rightarrow> stored)"

definition spec_publishedAt :: "(string \<Rightarrow> string \<Rightarrow> bool) \<Rightarrow> jsval \<Rightarrow> string option \<Rightarrow> string option \<Rightarrow> string \<Rightarrow> string option" where
  "spec_publishedAt equals requested stored existing now =
     (let is_published =
            (case spec_effective_status requested stored of
               None \<Rightarrow> False
             | Some s \<Rightarrow> equals s ''published'')
      in if is_published \<and> existing = None then Some now
         else if \<not> is_published \<and> existing \<noteq> None then None
         else existing)"

section \<open>Sample data and notions of the claims\<close>

text \<open>
  A JSON object literal (keys distinct), a request to the admin group, a public request, a
  fresh database.
\<close>

definition object :: "(string \<times> jsval) list \<Rightarrow> string \<Rightarrow> jsval" where
  "object kvs k = (case map_of kvs k of None \<Rightarrow> Undefined | Some v \<Rightarrow> v)"

definition admin_request :: "jsval \<Rightarrow> (string \<times> jsval) list \<Rightarrow> request" where
  "admin_request key kvs =
     \<lparr>x_api_key = key, json = Some (object kvs), param_slug = [], query_page = None,
      query_size = None, query_category = None\<rparr>"

definition public_request :: "string \<Rightarrow> int option \<Rightarrow> int option \<Rightarrow> string option \<Rightarrow> request" where
  "public_request s p n c =
     \<lparr>x_api_key = Undefined, json = None, param_slug = s, query_page = p, query_size = n,
      query_category = c\<rparr>"

definition empty_db :: database where
  "empty_db = \<lparr>rows = [], seq = 0, fault = None\<rparr>"

text \<open>The row with a given slug, as the program's queries by slug find it.\<close>

definition row_of :: "database \<Rightarrow> string \<Rightarrow> article option" where
  "row_of db s = find (\<lambda>a. slug a = s) (rows db)"

text \<open>The fields of an update that the specification recognizes.\<close>

definition recognized_fields :: "string list" where
  "recognized_fields =
     [''title'', ''content'', ''featured_image'', ''category'', ''author'', ''status'',
      ''meta_title'', ''meta_description'']"

text \<open>A table of 25 published articles and two that are not published.\<close>

definition sample_article :: "nat \<Rightarrow> string \<Rightarrow> string option \<Rightarrow> article" where
  "sample_article i st pub =
     \<lparr>id_col = Suc i, slug = ''article-'' @ [char_of (97 + i)], title = ''Title'',
      excerpt = Some ''Text'', content = Some ''Text'', featured_image = None,
      category = Some ''bisnis'', author = Some ''Admin'', status = Some st,
      created_at = Some ''2025'', updated_at = Some ''2025'', published_at = pub,
      meta_title = None, meta_description = None\<rparr>"

definition sample_db :: database where
  "sample_db =
     \<lparr>rows = map (\<lambda>i. sample_article i ''published'' (Some (''2025-'' @ [char_of (65 + i)]))) [0..<25]
             @ [sample_article 25 ''draft'' None, sample_article 26 ''Published'' (Some ''2025-Z'')],
      seq = 27, fault = None\<rparr>"

text \<open>The body of a create call without a status, and requests built from it.\<close>

definition create_fields :: "(string \<times> jsval) list" where
  "create_fields = [(''slug'', Str ''a''), (''title'', Str ''T''), (''content'', Str ''# Hello'')]"

definition create_request :: "(string \<times> jsval) list \<Rightarrow> request" where
  "create_request extra = admin_request (Str ''k'') (create_fields @ extra)"


definition draft_db :: database where
  "draft_db = snd (post_articles empty_db (create_request [(''category'', Str ''bisnis'')]) ''t1'' ''t2'')"

definition capital_db :: database where
  "capital_db = snd (post_articles empty_db (create_request [(''status'', Str ''Published'')]) ''t1'' ''t2'')"

definition update_request :: "(string \<times> jsval) list \<Rightarrow> request" where
  "update_request kvs = admin_request (Str ''secret'') ((''slug'', Str ''a'') # kvs)"


text \<open>
  A table whose article was created as \<open>published\<close> and then updated to \<open>draft\<close>, which
  cleared its \<open>published_at\<close>.
\<close>

definition cleared_db :: database where
  "cleared_db =
     snd (put_articles
            (snd (post_articles empty_db (create_request [(''status'', Str ''published'')]) ''t1'' ''t2''))
            (update_request [(''status'', Str ''draft'')]) ''t3'' ''t4'')"

section \<open>Strings\<close>

lemma trim_decomp:
  "\<exists>pre suf. s = pre @ trim s @ suf \<and> list_all isWhiteSpace pre \<and> list_all isWhiteSpace suf"
proof -
  let ?d = "dropWhile isWhiteSpace s"
  have 1: "s = takeWhile isWhiteSpace s @ ?d" by simp
  have "rev (takeWhile isWhiteSpace (rev ?d) @ dropWhile isWhiteSpace (rev ?d)) = ?d"
    by (simp only: takeWhile_dropWhile_id rev_rev_ident)
  then have 2: "?d = trim s @ rev (takeWhile isWhiteSpace (rev ?d))"
    by (simp only: rev_append trim_def)
  have 3: "list_all isWhiteSpace (takeWhile isWhiteSpace s)"
    by (simp add: list_all_iff) (meson set_takeWhileD)
  have 4: "list_all isWhiteSpace (rev (takeWhile isWhiteSpace (rev ?d)))"
    by (simp add: list_all_iff) (meson set_takeWhileD)
  from 1 2 have "s = takeWhile isWhiteSpace s @ trim s @ rev (takeWhile isWhiteSpace (rev ?d))"
    by simp
  with 3 4 show ?thesis by blast
qed

lemma trim_last: "trim s \<noteq> [] \<Longrightarrow> \<not> isWhiteSpace (last (trim s))"
  unfolding trim_def by (simp add: last_rev hd_dropWhile)

lemma last_dropWhile: "dropWhile P xs \<noteq> [] \<Longrightarrow> last (dropWhile P xs) = last xs"
  by (induction xs) (auto split: if_splits)

lemma trim_hd: "trim s \<noteq> [] \<Longrightarrow> \<not> isWhiteSpace (hd (trim s))"
proof -
  assume a: "trim s \<noteq> []"
  let ?d = "dropWhile isWhiteSpace s"
  from a have n: "dropWhile isWhiteSpace (rev ?d) \<noteq> []" by (simp add: trim_def)
  have d: "?d \<noteq> []"
  proof
    assume "?d = []"
    then have "dropWhile isWhiteSpace (rev ?d) = []"
      by (simp only: rev.simps dropWhile.simps)
    with n show False by (simp only:)
  qed
  have "hd (trim s) = last (dropWhile isWhiteSpace (rev ?d))"
    using n by (simp add: trim_def hd_rev)
  also have "\<dots> = last (rev ?d)" using n by (rule last_dropWhile)
  also have "\<dots> = hd ?d" using d by (simp add: last_rev)
  finally show ?thesis using d hd_dropWhile by metis
qed

lemma length_trim: "length (trim s) \<le> length s"
  unfolding trim_def by (metis length_dropWhile_le length_rev order_trans)

section \<open>Excerpts\<close>

text \<open>
  Claim C2. \<open>createExcerpt\<close> returns \<open>null\<close> exactly when the content is absent
  (\<open>undefined\<close>, \<open>null\<close>) or the empty string. For any other content \<open>s\<close> its result
  \<open>e\<close> is built from \<open>t\<close>, where \<open>t\<close> is \<open>s\<close> without every \<open>#\<close>, \<open>*\<close>, \<open>-\<close>, \<open>>\<close>,
  \<open>[\<close>, \<open>]\<close> and newline and without the white space at its two ends: \<open>e\<close> is the first
  150 characters of \<open>t\<close>, followed by \<open>...\<close> exactly when \<open>t\<close> is longer than 150; so
  \<open>e\<close> is \<open>t\<close> itself when \<open>t\<close> has at most 150 characters, and \<open>e\<close> never has more than
  153.
\<close>

theorem createExcerpt_contract:
  "(createExcerpt c = None \<longleftrightarrow> c = Undefined \<or> c = Null \<or> c = Str [])
   \<and> (\<forall>s e. c = Str s \<and> createExcerpt c = Some e \<longrightarrow>
        (\<exists>t pre suf.
           filter (\<lambda>x. x \<notin> set ''#*->[]'' \<and> x \<noteq> CHR 0x0A) s = pre @ t @ suf
           \<and> list_all isWhiteSpace pre \<and> list_all isWhiteSpace suf
           \<and> (t = [] \<or> (\<not> isWhiteSpace (hd t) \<and> \<not> isWhiteSpace (last t)))
           \<and> e = take 150 t @ (if length t > 150 then ''...'' else [])
           \<and> (length t \<le> 150 \<longrightarrow> e = t))
        \<and> length e \<le> 153)"
proof (intro conjI allI impI)
  show "createExcerpt c = None \<longleftrightarrow> c = Undefined \<or> c = Null \<or> c = Str []"
    by (cases c) (simp_all add: createExcerpt_def)
next
  fix s e
  assume a: "c = Str s \<and> createExcerpt c = Some e"
  let ?f = "filter (\<lambda>x. x \<notin> set ''#*->[]'' \<and> x \<noteq> CHR 0x0A) s"
  have f: "filter (\<lambda>c. \<not> isMarkup c) s = ?f"
    by (rule filter_cong) (auto simp: isMarkup_def)
  from a have e: "e = take 150 (cleanText s) @ (if length (cleanText s) > 150 then ''...'' else [])"
    by (auto simp: createExcerpt_def split: if_splits)
  obtain pre suf where d: "?f = pre @ trim ?f @ suf" "list_all isWhiteSpace pre" "list_all isWhiteSpace suf"
    using trim_decomp by blast
  have t: "cleanText s = trim ?f" by (simp add: cleanText_def f)
  have ends: "trim ?f = [] \<or> (\<not> isWhiteSpace (hd (trim ?f)) \<and> \<not> isWhiteSpace (last (trim ?f)))"
    using trim_hd trim_last by blast
  show "\<exists>t pre suf.
           ?f = pre @ t @ suf
           \<and> list_all isWhiteSpace pre \<and> list_all isWhiteSpace suf
           \<and> (t = [] \<or> (\<not> isWhiteSpace (hd t) \<and> \<not> isWhiteSpace (last t)))
           \<and> e = take 150 t @ (if length t > 150 then ''...'' else [])
           \<and> (length t \<le> 150 \<longrightarrow> e = t)"
    apply (rule exI [of _ "trim ?f"], rule exI [of _ pre], rule exI [of _ suf])
    using d ends e t by auto
  show "length e \<le> 153" using e by auto
qed

theorem createExcerpt_contract_witness:
  "createExcerpt (Str (''# Hello World'' @ [CHR 0x0A] @ replicate 200 CHR ''x''))
     = Some (''Hello World'' @ replicate 139 CHR ''x'' @ ''...'')
   \<and> length (''Hello World'' @ replicate 139 CHR ''x'' @ ''...'') \<le> (153::nat)
   \<and> createExcerpt (Str ''# [a] - b '') = Some ''a  b''
   \<and> createExcerpt (Str []) = None"
proof -
  have 1: "createExcerpt (Str (''# Hello World'' @ [CHR 0x0A] @ replicate 200 CHR ''x''))
     = Some (''Hello World'' @ replicate 139 CHR ''x'' @ ''...'')" by code_simp
  have 2: "createExcerpt (Str ''# [a] - b '') = Some ''a  b''" by code_simp
  show ?thesis
    using createExcerpt_contract [of "Str (''# Hello World'' @ [CHR 0x0A] @ replicate 200 CHR ''x'')"]
      createExcerpt_contract [of "Str []"] 1 2
    by simp
qed

section \<open>Listing\<close>









section \<open>Creating and reading articles\<close>


lemma code_json_response [simp]: "code (json_response b c) = c"
  and payload_json_response [simp]: "payload (json_response b c) = b"
  by (simp_all add: json_response_def)

lemma slug_inserted_values [simp]: "slug (inserted_values body t_pub t_now) = str_of (body ''slug'')"
  by (simp add: inserted_values_def Let_def)

lemma post_articles_created:
  assumes "json req = Some body"
    and "truthy (body ''slug'')" and "truthy (body ''title'')" and "truthy (body ''content'')"
    and "fault db = None" and "str_of (body ''slug'') \<notin> slug ` set (rows db)"
  shows "post_articles db req t_pub t_now =
           (json_response (MessageSlug True ''Article added successfully'' (str_of (body ''slug''))) 200,
            db\<lparr>rows := rows db @ [(inserted_values body t_pub t_now)\<lparr>id_col := Suc (seq db)\<rparr>],
               seq := Suc (seq db)\<rparr>)"
  using assms by (simp add: post_articles_def insert_article_def)

lemma post_articles_200:
  assumes "code (fst (post_articles db req t_pub t_now)) = 200"
  shows "\<exists>body. json req = Some body \<and> truthy (body ''slug'') \<and> truthy (body ''title'')
           \<and> truthy (body ''content'') \<and> fault db = None
           \<and> str_of (body ''slug'') \<notin> slug ` set (rows db)"
  using assms
  by (auto simp: post_articles_def insert_article_def split: option.splits if_splits sum.splits)



text \<open>
  Claim C5. A create call that succeeds (code 200) and whose body has no \<open>status\<close> adds one
  row: its status is \<open>draft\<close>, its \<open>published_at\<close> is \<open>NULL\<close>, its \<open>created_at\<close> and
  \<open>updated_at\<close> are the same timestamp (the handler's \<open>currentTimestamp\<close>), and its author
  is \<open>Admin\<close> when the body has no author (a non-empty author of the body is kept).
\<close>

theorem create_defaults:
  assumes "post_articles db req t_pub t_now = (r, db')" and "code r = 200"
    and "json req = Some body" and "body ''status'' = Undefined"
  shows "\<exists>a. rows db' = rows db @ [a]
           \<and> slug a = str_of (body ''slug'')
           \<and> status a = Some ''draft''
           \<and> published_at a = None
           \<and> created_at a = Some t_now \<and> updated_at a = created_at a
           \<and> (body ''author'' = Undefined \<longrightarrow> author a = Some ''Admin'')
           \<and> (\<forall>s. body ''author'' = Str s \<and> s \<noteq> [] \<longrightarrow> author a = Some s)"
proof -
  from assms(1,2) have "code (fst (post_articles db req t_pub t_now)) = 200" by simp
  from post_articles_200 [OF this] assms(3)
  have v: "truthy (body ''slug'')" "truthy (body ''title'')" "truthy (body ''content'')"
    "fault db = None" "str_of (body ''slug'') \<notin> slug ` set (rows db)" by auto
  from post_articles_created [OF assms(3) v] assms(1)
  have "db' = db\<lparr>rows := rows db @ [(inserted_values body t_pub t_now)\<lparr>id_col := Suc (seq db)\<rparr>],
               seq := Suc (seq db)\<rparr>" by simp
  then show ?thesis using assms(4)
    by (auto simp: inserted_values_def Let_def)
qed



lemma set_limit_offset: "set (limit_offset n k xs) \<subseteq> set xs"
  by (auto simp: limit_offset_def Let_def dest: in_set_takeD in_set_dropD)

lemma get_articles_listed:
  assumes "payload (get_articles db q) = Listing data pg" and "l \<in> set data"
  shows "\<exists>a\<in>set (rows db). status a = Some ''published'' \<and> l = select_columns a"
proof -
  let ?cat = "if truthy_cell (query_category q) then query_category q else None"
  let ?n = "or_int (query_size q) 10"
  let ?k = "(or_int (query_page q) 1 - 1) * ?n"
  from assms(1) have "data = map select_columns
      (limit_offset ?n ?k (order_by_published_at_desc (filter (matching ?cat) (rows db))))"
    by (auto simp: get_articles_def Let_def select_listing_def select_count_def
          split: option.splits sum.splits)
  with assms(2) obtain a where a: "l = select_columns a"
    "a \<in> set (limit_offset ?n ?k (order_by_published_at_desc (filter (matching ?cat) (rows db))))"
    by auto
  from a(2) have "a \<in> set (order_by_published_at_desc (filter (matching ?cat) (rows db)))"
    by (rule subsetD [OF set_limit_offset])
  then have "a \<in> set (rows db)" "matching ?cat a"
    by (simp_all add: order_by_published_at_desc_def)
  then show ?thesis using a(1) by (auto simp: matching_def)
qed

lemma get_article_detail:
  assumes "payload (get_article db q) = Detail a"
  shows "a \<in> set (rows db) \<and> slug a = param_slug q \<and> status a = Some ''published''"
proof -
  let ?rs = "filter (\<lambda>a. slug a = param_slug q \<and> status a = Some ''published'') (rows db)"
  from assms have "take 1 ?rs \<noteq> []" "a = hd (take 1 ?rs)"
    by (auto simp: get_article_def select_published_by_slug_def split: option.splits if_splits)
  then have "a \<in> set ?rs" by (cases ?rs) auto
  then show ?thesis by simp
qed

lemma get_article_hidden:
  assumes "fault db = None"
    and "\<forall>a\<in>set (rows db). slug a = param_slug q \<longrightarrow> status a \<noteq> Some ''published''"
  shows "get_article db q = json_response (Message False ''Article not found or not published'') 404"
proof -
  from assms(2) have "filter (\<lambda>a. slug a = param_slug q \<and> status a = Some ''published'') (rows db) = []"
    by (auto simp: filter_empty_conv)
  then show ?thesis using assms(1) by (simp add: get_article_def select_published_by_slug_def)
qed

text \<open>
  Slugs stay unique: the table starts empty, the insert refuses a slug it has, and an update
  or a delete never changes a slug.
\<close>

lemma slug_assign [simp]: "slug (assign (c, v) a) = slug a"
  by (cases c) (simp_all split: option.splits)

lemma slug_fold_assign [simp]: "slug (fold assign cs a) = slug a"
  by (induction cs arbitrary: a) auto

lemma unique_slugs_empty: "unique_slugs empty_db"
  by (simp add: unique_slugs_def empty_db_def)

lemma unique_slugs_post_articles:
  assumes "unique_slugs db"
  shows "unique_slugs (snd (post_articles db req t_pub t_now))"
  using assms
  by (auto simp: post_articles_def insert_article_def unique_slugs_def
        split: option.splits sum.splits if_splits)

lemma map_slug_update:
  "map slug (map (\<lambda>a. if slug a = s then fold assign cs a else a) xs) = map slug xs"
  by (induction xs) simp_all

lemma unique_slugs_put_articles:
  assumes "unique_slugs db"
  shows "unique_slugs (snd (put_articles db req t_pub t_db))"
proof -
  have "map slug (rows (snd (put_articles db req t_pub t_db))) = map slug (rows db)"
    by (auto simp: put_articles_def update_article_def Let_def map_slug_update
          simp del: map_map split: option.splits sum.splits if_splits)
  with assms show ?thesis by (simp add: unique_slugs_def)
qed

lemma unique_slugs_delete_articles:
  assumes "unique_slugs db"
  shows "unique_slugs (snd (delete_articles db req))"
  using assms
  by (auto simp: delete_articles_def delete_article_def unique_slugs_def distinct_map_filter
        split: option.splits sum.splits if_splits)

lemma unique_slugs_same:
  assumes "unique_slugs db" and "a \<in> set (rows db)" and "b \<in> set (rows db)" and "slug b = slug a"
  shows "b = a"
  using assms by (auto simp: unique_slugs_def distinct_map dest: inj_onD)

text \<open>
  Claim C7. An article of the table whose stored status is not \<open>published\<close> (slugs being
  unique, as the schema has it) is in no list result, whatever the page, size and category
  of the request; and a get by its slug never returns an article, and answers 404 whenever
  the database answers.
\<close>

theorem unpublished_never_public:
  assumes "a \<in> set (rows db)" and "status a \<noteq> Some ''published''" and "unique_slugs db"
  shows "(\<forall>q data pg. payload (get_articles db q) = Listing data pg \<longrightarrow> slug a \<notin> l_slug ` set data)
       \<and> (\<forall>q. param_slug q = slug a \<longrightarrow>
             (\<forall>x. payload (get_article db q) \<noteq> Detail x)
             \<and> (fault db = None \<longrightarrow>
                  get_article db q
                    = json_response (Message False ''Article not found or not published'') 404))"
proof (intro conjI allI impI)
  fix q :: request and data pg
  assume p: "payload (get_articles db q) = Listing data pg"
  show "slug a \<notin> l_slug ` set data"
  proof
    assume "slug a \<in> l_slug ` set data"
    then obtain l where l: "l \<in> set data" "l_slug l = slug a" by auto
    from get_articles_listed [OF p l(1)] obtain b
      where b: "b \<in> set (rows db)" "status b = Some ''published''" "l = select_columns b" by auto
    from b(3) l(2) have "slug b = slug a" by (simp add: select_columns_def)
    from unique_slugs_same [OF assms(3) assms(1) b(1) this] b(2) assms(2) show False by simp
  qed
next
  fix q :: request and x
  assume q: "param_slug q = slug a"
  show "payload (get_article db q) \<noteq> Detail x"
  proof
    assume "payload (get_article db q) = Detail x"
    from get_article_detail [OF this] q
    have x: "x \<in> set (rows db)" "slug x = slug a" "status x = Some ''published''" by auto
    from unique_slugs_same [OF assms(3) assms(1) x(1,2)] x(3) assms(2) show False by simp
  qed
next
  fix q :: request
  assume q: "param_slug q = slug a" and f: "fault db = None"
  have "\<forall>b\<in>set (rows db). slug b = param_slug q \<longrightarrow> status b \<noteq> Some ''published''"
    using unique_slugs_same [OF assms(3) assms(1)] assms(2) q by metis
  from get_article_hidden [OF f this]
  show "get_article db q = json_response (Message False ''Article not found or not published'') 404" .
qed


lemma get_articles_ok:
  "fault db = None \<Longrightarrow> \<exists>data pg. get_articles db q = json_response (Listing data pg) 200"
  by (auto simp: get_articles_def Let_def select_listing_def select_count_def)

lemma create_request_fields:
  "json (create_request extra) = Some (object (create_fields @ extra))"
  "object (create_fields @ extra) ''slug'' = Str ''a''"
  "object (create_fields @ extra) ''title'' = Str ''T''"
  "object (create_fields @ extra) ''content'' = Str ''# Hello''"
  by (simp_all add: create_request_def admin_request_def object_def create_fields_def)

lemma create_request_extra:
  "k \<notin> {''slug'', ''title'', ''content''} \<Longrightarrow> object (create_fields @ extra) k = object extra k"
  by (simp add: object_def create_fields_def)

lemma post_create_request:
  "post_articles empty_db (create_request extra) t_pub t_now =
     (json_response (MessageSlug True ''Article added successfully'' ''a'') 200,
      \<lparr>rows = [(inserted_values (object (create_fields @ extra)) t_pub t_now)\<lparr>id_col := 1\<rparr>],
       seq = 1, fault = None\<rparr>)"
proof -
  have "post_articles empty_db (create_request extra) t_pub t_now =
      (json_response (MessageSlug True ''Article added successfully''
         (str_of (object (create_fields @ extra) ''slug''))) 200,
       empty_db\<lparr>rows := rows empty_db
           @ [(inserted_values (object (create_fields @ extra)) t_pub t_now)\<lparr>id_col := Suc (seq empty_db)\<rparr>],
         seq := Suc (seq empty_db)\<rparr>)"
    by (rule post_articles_created [OF create_request_fields(1)])
       (simp_all add: create_request_fields empty_db_def)
  then show ?thesis by (simp add: create_request_fields empty_db_def)
qed

theorem create_defaults_witness:
  "code (fst (post_articles empty_db (create_request [(''category'', Str ''bisnis'')]) ''t1'' ''t2'')) = 200
   \<and> object (create_fields @ [(''category'', Str ''bisnis'')]) ''status'' = Undefined
   \<and> (\<exists>a. rows (snd (post_articles empty_db (create_request [(''category'', Str ''bisnis'')]) ''t1'' ''t2'')) = [a]
          \<and> slug a = ''a'' \<and> status a = Some ''draft'' \<and> published_at a = None
          \<and> created_at a = Some ''t2'' \<and> updated_at a = Some ''t2'' \<and> author a = Some ''Admin'')"
proof -
  let ?p = "post_articles empty_db (create_request [(''category'', Str ''bisnis'')]) ''t1'' ''t2''"
  have e: "?p = (fst ?p, snd ?p)" by simp
  have c: "code (fst ?p) = 200" by (simp add: post_create_request)
  have u: "object (create_fields @ [(''category'', Str ''bisnis'')]) ''status'' = Undefined"
    "object (create_fields @ [(''category'', Str ''bisnis'')]) ''author'' = Undefined"
    by (subst create_request_extra; simp add: object_def)+
  from create_defaults [OF e c create_request_fields(1) u(1)] u(2)
  obtain a where "rows (snd ?p) = rows empty_db @ [a]" "slug a = str_of (object (create_fields @ [(''category'', Str ''bisnis'')]) ''slug'')"
    "status a = Some ''draft''" "published_at a = None" "created_at a = Some ''t2''"
    "updated_at a = created_at a" "author a = Some ''Admin''" by auto
  then have "rows (snd ?p) = [a] \<and> slug a = ''a'' \<and> status a = Some ''draft'' \<and> published_at a = None
          \<and> created_at a = Some ''t2'' \<and> updated_at a = Some ''t2'' \<and> author a = Some ''Admin''"
    by (simp add: empty_db_def create_request_fields)
  then show ?thesis using c u(1) by blast
qed


lemma sample_db_unique: "unique_slugs sample_db"
  unfolding unique_slugs_def by code_simp

theorem unpublished_never_public_witness:
  "sample_article 25 ''draft'' None \<in> set (rows sample_db)
   \<and> status (sample_article 25 ''draft'' None) \<noteq> Some ''published''
   \<and> unique_slugs sample_db
   \<and> (\<exists>data pg. get_articles sample_db (public_request [] (Some 3) (Some 10) None)
                   = json_response (Listing data pg) 200
                 \<and> slug (sample_article 25 ''draft'' None) \<notin> l_slug ` set data)
   \<and> get_article sample_db (public_request (slug (sample_article 25 ''draft'' None)) None None None)
       = json_response (Message False ''Article not found or not published'') 404"
proof -
  let ?a = "sample_article 25 ''draft'' None"
  let ?q = "public_request [] (Some 3) (Some 10) None"
  have h1: "?a \<in> set (rows sample_db)" by (simp add: sample_db_def)
  have h2: "status ?a \<noteq> Some ''published''" by (simp add: sample_article_def)
  have f: "fault sample_db = None" by (simp add: sample_db_def)
  note th = unpublished_never_public [OF h1 h2 sample_db_unique]
  obtain data pg where d: "get_articles sample_db ?q = json_response (Listing data pg) 200"
    using get_articles_ok [OF f] by blast
  then have "payload (get_articles sample_db ?q) = Listing data pg" by simp
  with th have n: "slug ?a \<notin> l_slug ` set data" by blast
  have "param_slug (public_request (slug ?a) None None None) = slug ?a"
    by (simp add: public_request_def)
  with th f have "get_article sample_db (public_request (slug ?a) None None None)
       = json_response (Message False ''Article not found or not published'') 404" by blast
  then show ?thesis using h1 h2 sample_db_unique d n by blast
qed

lemma toLowerCase_Published: "toLowerCase ''Published'' = ''published''"
  by code_simp

text \<open>
  Claim C10. A create call whose status is \<open>published\<close> up to case but not the lower-case
  string itself (such as \<open>Published\<close>) succeeds and stores the status as given with
  \<open>published_at\<close> set to the handler's timestamp; the article is then in no list result and
  a get by its slug answers 404. So a \<open>published_at\<close> does not imply public visibility.
\<close>

theorem mixed_case_published_invisible:
  assumes "json req = Some body"
    and "truthy (body ''slug'')" and "truthy (body ''title'')" and "truthy (body ''content'')"
    and "fault db = None" and "str_of (body ''slug'') \<notin> slug ` set (rows db)"
    and "body ''status'' = Str st" and "toLowerCase st = ''published''" and "st \<noteq> ''published''"
  shows "\<exists>r db' a.
           post_articles db req t_pub t_now = (r, db')
           \<and> code r = 200 \<and> success (payload r)
           \<and> rows db' = rows db @ [a]
           \<and> slug a = str_of (body ''slug'') \<and> status a = Some st \<and> published_at a = Some t_pub
           \<and> (\<forall>q data pg. payload (get_articles db' q) = Listing data pg \<longrightarrow>
                 slug a \<notin> l_slug ` set data)
           \<and> (\<forall>q. param_slug q = slug a \<longrightarrow>
                 get_article db' q
                   = json_response (Message False ''Article not found or not published'') 404)"
proof -
  let ?a = "(inserted_values body t_pub t_now)\<lparr>id_col := Suc (seq db)\<rparr>"
  let ?db = "db\<lparr>rows := rows db @ [?a], seq := Suc (seq db)\<rparr>"
  let ?r = "json_response (MessageSlug True ''Article added successfully'' (str_of (body ''slug''))) 200"
  have st: "st \<noteq> []" using assms(8) by (auto simp: toLowerCase_def)
  have p: "post_articles db req t_pub t_now = (?r, ?db)"
    by (rule post_articles_created [OF assms(1-6)])
  have a: "slug ?a = str_of (body ''slug'')" "status ?a = Some st" "published_at ?a = Some t_pub"
    using assms(7,8) st by (simp_all add: inserted_values_def Let_def)
  have fresh: "\<forall>b\<in>set (rows db). slug b \<noteq> str_of (body ''slug'')"
    using assms(6) by force
  have only: "\<forall>b\<in>set (rows ?db). slug b = slug ?a \<longrightarrow> status b \<noteq> Some ''published''"
    using fresh assms(9) a by auto
  have l: "\<forall>q data pg. payload (get_articles ?db q) = Listing data pg \<longrightarrow> slug ?a \<notin> l_slug ` set data"
  proof (intro allI impI notI)
    fix q :: request and data pg
    assume pl: "payload (get_articles ?db q) = Listing data pg" and "slug ?a \<in> l_slug ` set data"
    then obtain l where l: "l \<in> set data" "l_slug l = slug ?a" by auto
    from get_articles_listed [OF pl l(1)] obtain b
      where b: "b \<in> set (rows ?db)" "status b = Some ''published''" "l = select_columns b" by blast
    from b(3) l(2) have "slug b = slug ?a" by (simp add: select_columns_def)
    with only b(1,2) show False by blast
  qed
  have g: "\<forall>q. param_slug q = slug ?a \<longrightarrow>
       get_article ?db q = json_response (Message False ''Article not found or not published'') 404"
  proof (intro allI impI)
    fix q :: request
    assume "param_slug q = slug ?a"
    with only have "\<forall>b\<in>set (rows ?db). slug b = param_slug q \<longrightarrow> status b \<noteq> Some ''published''"
      by simp
    moreover have "fault ?db = None" using assms(5) by simp
    ultimately show "get_article ?db q
        = json_response (Message False ''Article not found or not published'') 404"
      by (rule get_article_hidden [rotated])
  qed
  have "post_articles db req t_pub t_now = (?r, ?db) \<and> code ?r = 200 \<and> success (payload ?r)
      \<and> rows ?db = rows db @ [?a]
      \<and> slug ?a = str_of (body ''slug'') \<and> status ?a = Some st \<and> published_at ?a = Some t_pub
      \<and> (\<forall>q data pg. payload (get_articles ?db q) = Listing data pg \<longrightarrow> slug ?a \<notin> l_slug ` set data)
      \<and> (\<forall>q. param_slug q = slug ?a \<longrightarrow>
             get_article ?db q = json_response (Message False ''Article not found or not published'') 404)"
    using p a l g by simp
  then show ?thesis by blast
qed

theorem mixed_case_published_invisible_witness:
  "(\<exists>r db' a.
      post_articles empty_db (create_request [(''status'', Str ''Published'')]) ''t1'' ''t2'' = (r, db')
      \<and> code r = 200 \<and> rows db' = [a] \<and> slug a = ''a''
      \<and> status a = Some ''Published'' \<and> published_at a = Some ''t1''
      \<and> (\<exists>pg. get_articles db' (public_request [] None None None) = json_response (Listing [] pg) 200)
      \<and> get_article db' (public_request ''a'' None None None)
          = json_response (Message False ''Article not found or not published'') 404)"
proof -
  let ?b = "object (create_fields @ [(''status'', Str ''Published'')])"
  have s: "?b ''status'' = Str ''Published''"
    by (subst create_request_extra; simp add: object_def)
  have h: "fault empty_db = None" "str_of (?b ''slug'') \<notin> slug ` set (rows empty_db)"
    "truthy (?b ''slug'')" "truthy (?b ''title'')" "truthy (?b ''content'')"
    by (simp_all add: empty_db_def create_request_fields)
  have n: "''Published'' \<noteq> ''published''" by simp
  from mixed_case_published_invisible [OF create_request_fields(1) h(3,4,5) h(1,2) s toLowerCase_Published n,
      of "''t1''" "''t2''"]
  obtain r db' a where r:
    "post_articles empty_db (create_request [(''status'', Str ''Published'')]) ''t1'' ''t2'' = (r, db')"
    "code r = 200" "rows db' = rows empty_db @ [a]" "slug a = str_of (?b ''slug'')"
    "status a = Some ''Published''" "published_at a = Some ''t1''"
    "\<forall>q data pg. payload (get_articles db' q) = Listing data pg \<longrightarrow> slug a \<notin> l_slug ` set data"
    "\<forall>q. param_slug q = slug a \<longrightarrow>
       get_article db' q = json_response (Message False ''Article not found or not published'') 404"
    by blast
  have sa: "slug a = ''a''" using r(4) by (simp add: create_request_fields)
  have rows: "rows db' = [a]" using r(3) by (simp add: empty_db_def)
  have f: "fault db' = None" using r(1) by (auto simp: post_create_request)
  obtain data pg where d: "get_articles db' (public_request [] None None None) = json_response (Listing data pg) 200"
    using get_articles_ok [OF f] by blast
  have "data = []"
  proof (rule ccontr)
    assume "data \<noteq> []"
    then obtain l where l: "l \<in> set data" by (cases data) auto
    from d have pl: "payload (get_articles db' (public_request [] None None None)) = Listing data pg" by simp
    from get_articles_listed [OF pl l] rows have "l = select_columns a" by auto
    then have "slug a \<in> l_slug ` set data" using l by (force simp: select_columns_def)
    with r(7) pl show False by blast
  qed
  with d have d': "\<exists>pg. get_articles db' (public_request [] None None None) = json_response (Listing [] pg) 200"
    by blast
  have g: "get_article db' (public_request ''a'' None None None)
          = json_response (Message False ''Article not found or not published'') 404"
    using r(8) sa by (simp add: public_request_def)
  show ?thesis using r(1,2,5,6) rows sa d' g by blast
qed

section \<open>Updating articles\<close>

lemma status_assign: "status (assign (c, v) a) = (if c = Status then v else status a)"
  by (cases c) (simp_all split: option.splits)

lemma published_at_assign:
  "published_at (assign (c, v) a) = (if c = Published_at then v else published_at a)"
  by (cases c) (simp_all split: option.splits)

lemma updated_at_assign:
  "updated_at (assign (c, v) a) = (if c = Updated_at then v else updated_at a)"
  by (cases c) (simp_all split: option.splits)

lemma status_set_clause:
  "k \<noteq> Status \<Longrightarrow> status (fold assign (set_clause k v) a) = status a"
  by (cases v) (simp_all add: status_assign)

lemma published_at_set_clause:
  "k \<noteq> Published_at \<Longrightarrow> published_at (fold assign (set_clause k v) a) = published_at a"
  by (cases v) (simp_all add: published_at_assign)

lemma newStatus_defined: "newStatus st es \<noteq> Undefined"
  by (cases es) (simp_all add: newStatus_def)

lemma set_clause_defined: "v \<noteq> Undefined \<Longrightarrow> \<exists>x. set_clause k v = [(k, x)]"
  by (cases v) simp_all

lemma setClauses_length: "2 \<le> length (setClauses body es ep t)"
proof -
  obtain x where "set_clause Status (newStatus (body ''status'') es) = [(Status, x)]"
    using set_clause_defined [OF newStatus_defined] by blast
  then show ?thesis by (simp add: setClauses_def Let_def)
qed

lemma title_null_set_clause:
  "(Title, None) \<in> set (set_clause k v) \<longleftrightarrow> k = Title \<and> v = Null"
  by (cases v) auto

lemma title_null_setClauses:
  "(Title, None) \<in> set (setClauses body es ep t) \<longleftrightarrow> body ''title'' = Null"
  by (auto simp: setClauses_def Let_def title_null_set_clause)

lemma status_setClauses:
  "status (fold assign (setClauses body es ep t) a) =
     (case newStatus (body ''status'') es of Str s \<Rightarrow> Some s | _ \<Rightarrow> None)"
proof -
  have "status (fold assign (set_clause Status (newStatus (body ''status'') es)) a')
        = (case newStatus (body ''status'') es of Str s \<Rightarrow> Some s | _ \<Rightarrow> None)" for a'
    using newStatus_defined [of "body ''status''" es]
    by (cases "newStatus (body ''status'') es") (simp_all add: status_assign)
  then show ?thesis
    by (simp add: setClauses_def Let_def status_set_clause)
qed

lemma published_at_setClauses:
  "published_at (fold assign (setClauses body es ep t) a) =
     publishedAtValue (newStatus (body ''status'') es) ep t"
  by (simp add: setClauses_def Let_def published_at_set_clause published_at_assign)


lemma find_map_same_slug:
  assumes "\<And>a. slug (f a) = slug a"
  shows "find (\<lambda>a. slug a = s) (map (\<lambda>a. if slug a = s then f a else a) xs)
         = map_option f (find (\<lambda>a. slug a = s) xs)"
  by (induction xs) (simp_all add: assms)

lemma newStatus_eq_Str:
  "(newStatus st es = Str x) = ((if truthy st then Some (toLowerCase (str_of st)) else es) = Some x)"
  by (cases es) (auto simp: newStatus_def)

lemma newStatus_cell:
  "(case newStatus st es of Str s \<Rightarrow> Some s | _ \<Rightarrow> None)
   = (if truthy st then Some (toLowerCase (str_of st)) else es)"
  by (cases es) (auto simp: newStatus_def)

lemma row_of_in_rows: "row_of db s = Some old \<Longrightarrow> old \<in> set (rows db) \<and> slug old = s"
  unfolding row_of_def by (auto simp: find_Some_iff)

lemma put_articles_applied:
  assumes "json req = Some body" and "truthy (body ''slug'')" and "fault db = None"
    and "row_of db (str_of (body ''slug'')) = Some old" and "body ''title'' \<noteq> Null"
  shows "put_articles db req t_pub t_db =
           (json_response
              (MessageSlug True ''Article updated successfully'' (str_of (body ''slug''))) 200,
            db\<lparr>rows :=
                 map (\<lambda>a. if slug a = str_of (body ''slug'')
                           then fold assign
                                  (setClauses body (status old) (published_at old) t_pub
                                   @ [(Updated_at, Some t_db)]) a
                           else a) (rows db)\<rparr>)"
proof -
  let ?s = "str_of (body ''slug'')"
  let ?cl = "setClauses body (status old) (published_at old) t_pub"
  have f: "select_first_by_slug db ?s = Inr (Some (status old, published_at old))"
    using assms(3,4) by (simp add: select_first_by_slug_def row_of_def)
  have l: "\<not> length ?cl \<le> 1" using setClauses_length [of body "status old" "published_at old" t_pub]
    by simp
  have n: "(Title, None) \<notin> set (?cl @ [(Updated_at, Some t_db)])"
    using assms(5) by (simp add: title_null_setClauses)
  have "old \<in> set (filter (\<lambda>a. slug a = ?s) (rows db))"
    using row_of_in_rows [OF assms(4)] by simp
  then have c: "length (filter (\<lambda>a. slug a = ?s) (rows db)) \<noteq> 0" by (metis length_0_conv empty_iff list.set(1))
  have u: "update_article db (?cl @ [(Updated_at, Some t_db)]) ?s =
      Inr (db\<lparr>rows := map (\<lambda>a. if slug a = ?s then fold assign (?cl @ [(Updated_at, Some t_db)]) a else a) (rows db)\<rparr>,
           length (filter (\<lambda>a. slug a = ?s) (rows db)))"
    using assms(3) n unfolding update_article_def by simp
  show ?thesis
    unfolding put_articles_def using assms(1,2) f l u c by (simp add: Let_def)
qed

lemma put_articles_200:
  assumes "put_articles db req t_pub t_db = (r, db')" and "code r = 200"
  shows "\<exists>body old. json req = Some body \<and> truthy (body ''slug'') \<and> fault db = None
           \<and> row_of db (str_of (body ''slug'')) = Some old \<and> body ''title'' \<noteq> Null"
proof -
  from assms obtain body where b: "json req = Some body" "truthy (body ''slug'')"
    by (auto simp: put_articles_def Let_def uncaught_def split: option.splits if_splits)
  let ?s = "str_of (body ''slug'')"
  from assms b obtain es ep where f: "select_first_by_slug db ?s = Inr (Some (es, ep))"
    by (auto simp: put_articles_def Let_def uncaught_def split: option.splits if_splits sum.splits)
  then have fl: "fault db = None" and "find (\<lambda>a. slug a = ?s) (rows db) \<noteq> None"
    by (auto simp: select_first_by_slug_def split: option.splits)
  then obtain old where old: "row_of db ?s = Some old" by (auto simp: row_of_def)
  have es: "es = status old" "ep = published_at old"
    using f old fl by (auto simp: select_first_by_slug_def row_of_def)
  from assms b f obtain x where u: "update_article db (setClauses body es ep t_pub @ [(Updated_at, Some t_db)]) ?s = Inr x"
    by (auto simp: put_articles_def Let_def split: if_splits sum.splits)
  have "?s \<in> slug ` set (rows db)" using row_of_in_rows [OF old] by force
  with u fl have "(Title, None) \<notin> set (setClauses body es ep t_pub @ [(Updated_at, Some t_db)])"
    by (auto simp: update_article_def split: if_splits)
  then have "body ''title'' \<noteq> Null" by (simp add: title_null_setClauses)
  with b fl old show ?thesis by blast
qed

lemma put_articles_row:
  assumes "json req = Some body" and "truthy (body ''slug'')" and "fault db = None"
    and "row_of db (str_of (body ''slug'')) = Some old" and "body ''title'' \<noteq> Null"
  shows "\<exists>db' new.
           put_articles db req t_pub t_db =
             (json_response
                (MessageSlug True ''Article updated successfully'' (str_of (body ''slug''))) 200, db')
           \<and> row_of db' (str_of (body ''slug'')) = Some new
           \<and> status new = (if truthy (body ''status'') then Some (toLowerCase (str_of (body ''status'')))
                            else status old)
           \<and> published_at new =
               publishedAtValue (newStatus (body ''status'') (status old)) (published_at old) t_pub
           \<and> updated_at new = Some t_db"
proof -
  let ?s = "str_of (body ''slug'')"
  let ?cl = "setClauses body (status old) (published_at old) t_pub @ [(Updated_at, Some t_db)]"
  let ?db = "db\<lparr>rows := map (\<lambda>a. if slug a = ?s then fold assign ?cl a else a) (rows db)\<rparr>"
  have p: "put_articles db req t_pub t_db =
      (json_response (MessageSlug True ''Article updated successfully'' ?s) 200, ?db)"
    by (rule put_articles_applied [OF assms])
  have r: "row_of ?db ?s = Some (fold assign ?cl old)"
    using assms(4) by (simp add: row_of_def find_map_same_slug)
  have s: "status (fold assign ?cl old)
      = (if truthy (body ''status'') then Some (toLowerCase (str_of (body ''status''))) else status old)"
    by (simp add: status_assign status_setClauses newStatus_cell)
  have q: "published_at (fold assign ?cl old)
      = publishedAtValue (newStatus (body ''status'') (status old)) (published_at old) t_pub"
    by (simp add: published_at_assign published_at_setClauses)
  have u: "updated_at (fold assign ?cl old) = Some t_db"
    by (simp add: updated_at_assign)
  show ?thesis using p r s q u by blast
qed

lemma draft_db_eval:
  "map (\<lambda>a. (slug a, status a, published_at a, updated_at a)) (rows draft_db)
     = [(''a'', Some ''draft'', None, Some ''t2'')]"
  "fault draft_db = None"
  by code_simp+

lemma capital_db_eval:
  "map (\<lambda>a. (slug a, status a, published_at a, updated_at a)) (rows capital_db)
     = [(''a'', Some ''Published'', Some ''t1'', Some ''t2'')]"
  "fault capital_db = None"
  by code_simp+

lemma update_request_json:
  "json (update_request kvs) = Some (object ((''slug'', Str ''a'') # kvs))"
  "object ((''slug'', Str ''a'') # kvs) ''slug'' = Str ''a''"
  by (simp_all add: update_request_def admin_request_def object_def)

text \<open>
  Claim C3, as amended. For an update that succeeds on an existing article, let the
  effective status be the lower-cased requested status when the body carries a non-empty
  one, and the stored status, as stored, otherwise. The row then has the effective status,
  and: if the effective status is exactly \<open>published\<close> and the row has no \<open>published_at\<close>
  (\<open>NULL\<close> or empty), \<open>published_at\<close> becomes the handler's current timestamp; if the
  effective status is not exactly \<open>published\<close> and the row has a \<open>published_at\<close>, it is
  cleared; otherwise it is unchanged. So a publication after a clear gets the timestamp of
  that call, not the earlier one.
\<close>

theorem update_publishedAt:
  assumes "put_articles db req t_pub t_db = (r, db')" and "code r = 200"
    and "json req = Some body" and "row_of db (str_of (body ''slug'')) = Some old"
    and "effective = (if truthy (body ''status'') then Some (toLowerCase (str_of (body ''status'')))
                      else status old)"
  shows "\<exists>new. row_of db' (str_of (body ''slug'')) = Some new
           \<and> status new = effective
           \<and> published_at new =
               (if effective = Some ''published'' \<and> \<not> truthy_cell (published_at old) then Some t_pub
                else if effective \<noteq> Some ''published'' \<and> truthy_cell (published_at old) then None
                else published_at old)"
proof -
  from put_articles_200 [OF assms(1,2)] assms(3,4)
  have c: "truthy (body ''slug'')" "fault db = None" "body ''title'' \<noteq> Null" by auto
  from put_articles_row [OF assms(3) c(1,2) assms(4) c(3), of t_pub t_db] assms(1)
  obtain new where n: "row_of db' (str_of (body ''slug'')) = Some new"
    "status new = effective"
    "published_at new =
       publishedAtValue (newStatus (body ''status'') (status old)) (published_at old) t_pub"
    unfolding assms(5) by auto
  have "publishedAtValue (newStatus (body ''status'') (status old)) (published_at old) t_pub =
      (if effective = Some ''published'' \<and> \<not> truthy_cell (published_at old) then Some t_pub
       else if effective \<noteq> Some ''published'' \<and> truthy_cell (published_at old) then None
       else published_at old)"
    unfolding publishedAtValue_def newStatus_eq_Str assms(5) by simp
  with n show ?thesis by simp
qed

lemma cleared_db_eval:
  "map_option (\<lambda>a. (status a, published_at a)) (row_of cleared_db ''a'') = Some (Some ''draft'', None)"
  by code_simp

lemma toLowerCase_PUBLISHED: "toLowerCase ''PUBLISHED'' = ''published''"
  by code_simp

theorem update_publishedAt_witness:
  "map (\<lambda>a. (status a, published_at a))
       (rows (snd (post_articles empty_db (create_request [(''status'', Str ''published'')]) ''t1'' ''t2'')))
     = [(Some ''published'', Some ''t1'')]
   \<and> map (\<lambda>a. (status a, published_at a)) (rows cleared_db) = [(Some ''draft'', None)]
   \<and> code (fst (put_articles cleared_db (update_request [(''status'', Str ''PUBLISHED'')]) ''t5'' ''t6'')) = 200
   \<and> (\<exists>new. row_of (snd (put_articles cleared_db (update_request [(''status'', Str ''PUBLISHED'')]) ''t5'' ''t6''))
               ''a'' = Some new
            \<and> status new = Some ''published'' \<and> published_at new = Some ''t5'')"
proof -
  let ?req = "update_request [(''status'', Str ''PUBLISHED'')]"
  let ?b = "object ((''slug'', Str ''a'') # [(''status'', Str ''PUBLISHED'')])"
  let ?p = "put_articles cleared_db ?req ''t5'' ''t6''"
  have 1: "map (\<lambda>a. (status a, published_at a))
       (rows (snd (post_articles empty_db (create_request [(''status'', Str ''published'')]) ''t1'' ''t2'')))
     = [(Some ''published'', Some ''t1'')]" by code_simp
  have 2: "map (\<lambda>a. (status a, published_at a)) (rows cleared_db) = [(Some ''draft'', None)]"
    by code_simp
  have e: "?p = (fst ?p, snd ?p)" by simp
  have c: "code (fst ?p) = 200" by code_simp
  obtain old where old: "row_of cleared_db ''a'' = Some old" "status old = Some ''draft''"
    "published_at old = None"
    using cleared_db_eval by auto
  have st: "?b ''status'' = Str ''PUBLISHED''" by (simp add: object_def)
  have o: "row_of cleared_db (str_of (?b ''slug'')) = Some old"
    using old(1) by (simp add: update_request_json)
  have eff: "Some ''published'' = (if truthy (?b ''status'') then Some (toLowerCase (str_of (?b ''status'')))
                      else status old)"
    by (simp add: st toLowerCase_PUBLISHED)
  from update_publishedAt [OF e c update_request_json(1) o eff] old(3)
  have "\<exists>new. row_of (snd ?p) ''a'' = Some new
            \<and> status new = Some ''published'' \<and> published_at new = Some ''t5''"
    by (simp add: update_request_json)
  with 1 2 c show ?thesis by blast
qed

text \<open>
  The claim as the specification words it fails on the code. Read case-insensitively: an
  article stored with the status \<open>Published\<close> and a \<open>published_at\<close> loses its \<open>published_at\<close>
  on an update that carries only a title, where the specification keeps it. Read literally:
  an update of a draft with the status \<open>PUBLISHED\<close> sets \<open>published_at\<close>, where the literal
  comparison leaves it absent.
\<close>

theorem update_publishedAt_claim_counterexample:
  "map (\<lambda>a. (status a, published_at a)) (rows capital_db) = [(Some ''Published'', Some ''t1'')]
   \<and> object ((''slug'', Str ''a'') # [(''title'', Str ''T2'')]) ''status'' = Undefined
   \<and> map (\<lambda>a. (status a, published_at a))
         (rows (snd (put_articles capital_db (update_request [(''title'', Str ''T2'')]) ''t3'' ''t4'')))
       = [(Some ''Published'', None)]
   \<and> spec_publishedAt ci_equal Undefined (Some ''Published'') (Some ''t1'') ''t3'' = Some ''t1''
   \<and> map (\<lambda>a. (status a, published_at a)) (rows draft_db) = [(Some ''draft'', None)]
   \<and> map (\<lambda>a. (status a, published_at a))
         (rows (snd (put_articles draft_db (update_request [(''status'', Str ''PUBLISHED'')]) ''t3'' ''t4'')))
       = [(Some ''published'', Some ''t3'')]
   \<and> spec_publishedAt (=) (Str ''PUBLISHED'') (Some ''draft'') None ''t3'' = None"
proof (intro conjI)
  show "map (\<lambda>a. (status a, published_at a)) (rows capital_db) = [(Some ''Published'', Some ''t1'')]"
    by code_simp
  show "object ((''slug'', Str ''a'') # [(''title'', Str ''T2'')]) ''status'' = Undefined"
    by code_simp
  show "map (\<lambda>a. (status a, published_at a))
         (rows (snd (put_articles capital_db (update_request [(''title'', Str ''T2'')]) ''t3'' ''t4'')))
       = [(Some ''Published'', None)]"
    by code_simp
  show "spec_publishedAt ci_equal Undefined (Some ''Published'') (Some ''t1'') ''t3'' = Some ''t1''"
    by code_simp
  show "map (\<lambda>a. (status a, published_at a)) (rows draft_db) = [(Some ''draft'', None)]"
    by code_simp
  show "map (\<lambda>a. (status a, published_at a))
         (rows (snd (put_articles draft_db (update_request [(''status'', Str ''PUBLISHED'')]) ''t3'' ''t4'')))
       = [(Some ''published'', Some ''t3'')]"
    by code_simp
  show "spec_publishedAt (=) (Str ''PUBLISHED'') (Some ''draft'') None ''t3'' = None"
    by code_simp
qed

lemma find_append_fresh:
  "\<forall>b\<in>set xs. \<not> P b \<Longrightarrow> P a \<Longrightarrow> find P (xs @ [a]) = Some a"
  by (induction xs) auto

text \<open>
  Claim C8, as amended. A status that the body carries as a non-empty string, recognized or
  not, never makes a call fail. A create call that is valid otherwise (slug, title and
  content present, slug not in the table, storage answering) succeeds and stores the status
  exactly as given. An update call on an existing article (storage answering, title not
  \<open>null\<close>) succeeds and stores the lower-cased status.
\<close>

theorem status_stored:
  "(json req = Some body \<and> truthy (body ''slug'') \<and> truthy (body ''title'') \<and> truthy (body ''content'')
      \<and> fault db = None \<and> str_of (body ''slug'') \<notin> slug ` set (rows db)
      \<and> body ''status'' = Str s \<and> s \<noteq> [] \<longrightarrow>
      (\<exists>r db' a. post_articles db req t1 t2 = (r, db') \<and> code r = 200 \<and> success (payload r)
          \<and> row_of db' (str_of (body ''slug'')) = Some a \<and> status a = Some s))
   \<and> (json req = Some body \<and> truthy (body ''slug'') \<and> fault db = None
      \<and> row_of db (str_of (body ''slug'')) = Some old \<and> body ''title'' \<noteq> Null
      \<and> body ''status'' = Str s \<and> s \<noteq> [] \<longrightarrow>
      (\<exists>r db' a. put_articles db req t1 t2 = (r, db') \<and> code r = 200 \<and> success (payload r)
          \<and> row_of db' (str_of (body ''slug'')) = Some a \<and> status a = Some (toLowerCase s)))"
proof (intro conjI impI)
  assume a: "json req = Some body \<and> truthy (body ''slug'') \<and> truthy (body ''title'') \<and> truthy (body ''content'')
      \<and> fault db = None \<and> str_of (body ''slug'') \<notin> slug ` set (rows db)
      \<and> body ''status'' = Str s \<and> s \<noteq> []"
  let ?a = "(inserted_values body t1 t2)\<lparr>id_col := Suc (seq db)\<rparr>"
  let ?db = "db\<lparr>rows := rows db @ [?a], seq := Suc (seq db)\<rparr>"
  have p: "post_articles db req t1 t2 =
      (json_response (MessageSlug True ''Article added successfully'' (str_of (body ''slug''))) 200, ?db)"
    using a by (intro post_articles_created) simp_all
  have fresh: "\<forall>b\<in>set (rows db). \<not> slug b = str_of (body ''slug'')" using a by force
  have "find (\<lambda>b. slug b = str_of (body ''slug'')) (rows db @ [?a]) = Some ?a"
    by (rule find_append_fresh [OF fresh]) simp
  then have r: "row_of ?db (str_of (body ''slug'')) = Some ?a" by (simp add: row_of_def)
  have s: "status ?a = Some s" using a by (simp add: inserted_values_def Let_def)
  show "\<exists>r db' a. post_articles db req t1 t2 = (r, db') \<and> code r = 200 \<and> success (payload r)
          \<and> row_of db' (str_of (body ''slug'')) = Some a \<and> status a = Some s"
    using p r s by simp
next
  assume a: "json req = Some body \<and> truthy (body ''slug'') \<and> fault db = None
      \<and> row_of db (str_of (body ''slug'')) = Some old \<and> body ''title'' \<noteq> Null
      \<and> body ''status'' = Str s \<and> s \<noteq> []"
  then have h: "json req = Some body" "truthy (body ''slug'')" "fault db = None"
    "row_of db (str_of (body ''slug'')) = Some old" "body ''title'' \<noteq> Null" by simp_all
  from put_articles_row [OF h, of t1 t2] a
  show "\<exists>r db' a. put_articles db req t1 t2 = (r, db') \<and> code r = 200 \<and> success (payload r)
          \<and> row_of db' (str_of (body ''slug'')) = Some a \<and> status a = Some (toLowerCase s)"
    by auto
qed

lemma toLowerCase_Archived: "toLowerCase ''Archived'' = ''archived''"
  by code_simp

theorem status_stored_witness:
  "(\<exists>r db' a. post_articles empty_db (create_request [(''status'', Str ''Archived'')]) ''t1'' ''t2'' = (r, db')
       \<and> code r = 200 \<and> row_of db' ''a'' = Some a \<and> status a = Some ''Archived'')
   \<and> (\<exists>r db' a. put_articles draft_db (update_request [(''status'', Str ''Archived'')]) ''t3'' ''t4'' = (r, db')
       \<and> code r = 200 \<and> row_of db' ''a'' = Some a \<and> status a = Some ''archived'')"
proof -
  let ?cb = "object (create_fields @ [(''status'', Str ''Archived'')])"
  let ?ub = "object ((''slug'', Str ''a'') # [(''status'', Str ''Archived'')])"
  have cs: "?cb ''status'' = Str ''Archived''"
    by (subst create_request_extra; simp add: object_def)
  have c: "json (create_request [(''status'', Str ''Archived'')]) = Some ?cb \<and> truthy (?cb ''slug'')
      \<and> truthy (?cb ''title'') \<and> truthy (?cb ''content'')
      \<and> fault empty_db = None \<and> str_of (?cb ''slug'') \<notin> slug ` set (rows empty_db)
      \<and> ?cb ''status'' = Str ''Archived'' \<and> ''Archived'' \<noteq> []"
    using cs by (simp add: create_request_fields empty_db_def)
  obtain old where old: "row_of draft_db ''a'' = Some old"
    using draft_db_eval(1) by (auto simp: row_of_def)
  have us: "?ub ''status'' = Str ''Archived''" "?ub ''title'' \<noteq> Null"
    by (simp_all add: object_def)
  have u: "json (update_request [(''status'', Str ''Archived'')]) = Some ?ub \<and> truthy (?ub ''slug'')
      \<and> fault draft_db = None \<and> row_of draft_db (str_of (?ub ''slug'')) = Some old
      \<and> ?ub ''title'' \<noteq> Null \<and> ?ub ''status'' = Str ''Archived'' \<and> ''Archived'' \<noteq> []"
    using us old by (simp add: update_request_json draft_db_eval)
  from status_stored [of "create_request [(''status'', Str ''Archived'')]" ?cb empty_db "''Archived''"
      "''t1''" "''t2''"] c
  have 1: "\<exists>r db' a. post_articles empty_db (create_request [(''status'', Str ''Archived'')]) ''t1'' ''t2'' = (r, db')
       \<and> code r = 200 \<and> row_of db' ''a'' = Some a \<and> status a = Some ''Archived''"
    by (simp add: create_request_fields) blast
  from status_stored [of "update_request [(''status'', Str ''Archived'')]" ?ub draft_db "''Archived''"
      "''t3''" "''t4''" old] u
  have 2: "\<exists>r db' a. put_articles draft_db (update_request [(''status'', Str ''Archived'')]) ''t3'' ''t4'' = (r, db')
       \<and> code r = 200 \<and> row_of db' ''a'' = Some a \<and> status a = Some ''archived''"
    by (simp add: update_request_json toLowerCase_Archived) blast
  from 1 2 show ?thesis by simp
qed

text \<open>
  The claim as stated fails for updates: the status \<open>Archived\<close> is accepted, and the row
  then holds \<open>archived\<close>.
\<close>

theorem status_verbatim_counterexample:
  "code (fst (put_articles draft_db (update_request [(''status'', Str ''Archived'')]) ''t3'' ''t4'')) = 200
   \<and> map status (rows (snd (put_articles draft_db (update_request [(''status'', Str ''Archived'')]) ''t3'' ''t4'')))
       = [Some ''archived'']
   \<and> ''archived'' \<noteq> ''Archived''"
proof (intro conjI)
  show "code (fst (put_articles draft_db (update_request [(''status'', Str ''Archived'')]) ''t3'' ''t4'')) = 200"
    by code_simp
  show "map status (rows (snd (put_articles draft_db (update_request [(''status'', Str ''Archived'')]) ''t3'' ''t4'')))
       = [Some ''archived'']"
    by code_simp
  show "''archived'' \<noteq> ''Archived''" by simp
qed


text \<open>
  Claim C1 does not hold of the code. An update of an existing article whose body has none
  of the recognized fields answers 200 \<open>Article updated successfully\<close> and rewrites the row
  (the stored status again, \<open>published_at\<close>, \<open>updated_at\<close>). The handler's guard
  \<open>setClauses.length <= 1\<close> never fires: besides \<open>published_at\<close> the clause for \<open>status\<close> is
  always there, since \<open>fields.status\<close> is \<open>newStatus\<close>, which is never \<open>undefined\<close>.
\<close>

theorem update_without_fields_succeeds:
  assumes "json req = Some body" and "truthy (body ''slug'')" and "fault db = None"
    and "row_of db (str_of (body ''slug'')) = Some old"
    and "\<forall>k\<in>set recognized_fields. body k = Undefined"
  shows "\<exists>db' new.
           put_articles db req t_pub t_db =
             (json_response
                (MessageSlug True ''Article updated successfully'' (str_of (body ''slug''))) 200, db')
           \<and> row_of db' (str_of (body ''slug'')) = Some new
           \<and> status new = status old \<and> updated_at new = Some t_db
           \<and> (\<forall>b es ep t. 2 \<le> length (setClauses b es ep t))"
proof -
  from assms(5) have u: "body ''title'' = Undefined" "body ''status'' = Undefined"
    by (simp_all add: recognized_fields_def)
  then have t: "body ''title'' \<noteq> Null" by simp
  from put_articles_row [OF assms(1-4) t, of t_pub t_db] u(2) setClauses_length
  show ?thesis by auto
qed

theorem update_without_fields_succeeds_witness:
  "set (map (object ((''slug'', Str ''a'') # [(''foo'', Str ''bar'')])) recognized_fields)
     = {Undefined}
   \<and> map slug (rows draft_db) = [''a'']
   \<and> fst (put_articles draft_db (update_request [(''foo'', Str ''bar'')]) ''t3'' ''t4'')
       = json_response (MessageSlug True ''Article updated successfully'' ''a'') 200
   \<and> success (payload (fst (put_articles draft_db (update_request [(''foo'', Str ''bar'')]) ''t3'' ''t4'')))
   \<and> map updated_at (rows draft_db) = [Some ''t2'']
   \<and> map updated_at (rows (snd (put_articles draft_db (update_request [(''foo'', Str ''bar'')]) ''t3'' ''t4'')))
       = [Some ''t4'']"
proof -
  let ?b = "object ((''slug'', Str ''a'') # [(''foo'', Str ''bar'')])"
  let ?p = "put_articles draft_db (update_request [(''foo'', Str ''bar'')]) ''t3'' ''t4''"
  have m: "set (map ?b recognized_fields) = {Undefined}"
    by (simp add: recognized_fields_def object_def)
  have n: "\<forall>k\<in>set recognized_fields. ?b k = Undefined"
    by (simp add: recognized_fields_def object_def)
  obtain old where old: "row_of draft_db ''a'' = Some old"
    using draft_db_eval(1) by (auto simp: row_of_def)
  then have o: "row_of draft_db (str_of (?b ''slug'')) = Some old" by (simp add: update_request_json)
  have s: "truthy (?b ''slug'')" by (simp add: update_request_json)
  from update_without_fields_succeeds [OF update_request_json(1) s draft_db_eval(2) o n, of "''t3''" "''t4''"]
  have 1: "fst ?p = json_response (MessageSlug True ''Article updated successfully'' ''a'') 200"
    by (auto simp: update_request_json)
  have 2: "map slug (rows draft_db) = [''a'']" "map updated_at (rows draft_db) = [Some ''t2'']"
    using draft_db_eval(1) by (auto simp: map_eq_Cons_conv)
  have 3: "map updated_at (rows (snd ?p)) = [Some ''t4'']" by code_simp
  show ?thesis using m 1 2 3 by simp
qed

section \<open>The key check\<close>

lemma unauthorized_401 [simp]: "code unauthorized = 401" "\<not> success (payload unauthorized)"
  "code unauthorized_index_js = 401" "\<not> success (payload unauthorized_index_js)"
  by (simp_all add: unauthorized_def unauthorized_index_js_def)




end
